theory Spec2Isabelle
  imports Complex_Main
begin

section \<open>Status projection (src/types/pitstop.ts)\<close>

text \<open>
  The backend status and the stage reach the client as JSON strings; TypeScript's union
  types are erased at run time, so both are modelled as strings, and a parameter that may
  be \<^verbatim>\<open>undefined\<close> as a \<open>string option\<close>. The test \<^verbatim>\<open>!status\<close> holds for
  \<^verbatim>\<open>undefined\<close> and for the empty string.
\<close>

datatype UIJobStatus = idle | uploading | queued | processing | rendering | complete | failed

definition falsy_str :: "string option \<Rightarrow> bool" where
  "falsy_str s = (case s of None \<Rightarrow> True | Some v \<Rightarrow> v = [])"

definition mapBackendToUIStatus :: "string option \<Rightarrow> string option \<Rightarrow> UIJobStatus" where
  "mapBackendToUIStatus status stage =
     (if falsy_str status then idle
      else if status = Some ''QUEUED'' then queued
      else if status = Some ''PROCESSING'' then
        (if stage = Some ''RENDERING'' then rendering else processing)
      else if status = Some ''COMPLETE'' then complete
      else if status = Some ''FAILED'' then failed
      else idle)"

definition getStepFromBackend :: "string option \<Rightarrow> string option \<Rightarrow> int" where
  "getStepFromBackend status stage =
     (if falsy_str status then - 1
      else if status = Some ''QUEUED'' then
        (if stage = Some ''UPLOAD'' then 0 else 1)
      else if status = Some ''PROCESSING'' then
        (if stage = Some ''DETECTING'' \<or> stage = Some ''TRACKING'' then 2
         else if stage = Some ''RENDERING'' then 3
         else 2)
      else if status = Some ''COMPLETE'' then 5
      else if status = Some ''FAILED'' then - 1
      else - 1)"

text \<open>The four statuses the backend is declared to send (type \<^verbatim>\<open>PitstopJobStatus\<close>).\<close>

definition known_statuses :: "string option set" where
  "known_statuses = {Some ''QUEUED'', Some ''PROCESSING'', Some ''COMPLETE'', Some ''FAILED''}"

text \<open>The declared range of the stepper position.\<close>

definition stepper_positions :: "int set" where
  "stepper_positions = {- 1, 0, 1, 2, 3, 5}"

section \<open>The API client\<close>

text \<open>
  A job snapshot as the controller reads it (interface \<^verbatim>\<open>PitstopJob\<close>): the fields
  the controller never inspects (series, race, notes, file name and size, output
  descriptor, time stamps) are left out. Optional fields are options; \<open>progress\<close> is a
  fraction, idealised as a real number.
\<close>

record PitstopJob =
  job_id :: string
  status :: string
  stage :: "string option"
  progress :: "real option"
  logs :: "string list option"

text \<open>
  A row of the job list (interface \<^verbatim>\<open>PitstopJobListItem\<close>) with the fields the
  controller reads; the suffix keeps the names apart from those of the full job.
\<close>

record PitstopJobListItem =
  job_id_li :: string
  status_li :: string
  stage_li :: string
  has_output :: bool

record PitstopJobListResponse =
  items :: "PitstopJobListItem list"
  total :: int
  limit :: int
  offset :: int

text \<open>
  Everything the client throws is an \<^verbatim>\<open>Error\<close> object with a message. The message of
  a \<^verbatim>\<open>TypeError\<close> is chosen by the JavaScript engine; the model uses V8's wording.
\<close>

datatype js_error = Error string | TypeError string | SyntaxError string

fun message :: "js_error \<Rightarrow> string" where
  "message (Error m) = m"
| "message (TypeError m) = m"
| "message (SyntaxError m) = m"

text \<open>The message of the TypeError thrown by reading property \<open>prop\<close> of \<^verbatim>\<open>null\<close>.\<close>

definition null_read :: "string \<Rightarrow> string" where
  "null_read prop =
     ''Cannot read properties of null (reading '' @ [CHR 0x27] @ prop @ [CHR 0x27] @ '')''"

text \<open>
  A value parsed from JSON. A number is given by the two things JavaScript code can
  observe of it here: whether it is non-zero, and its rendering by \<^verbatim>\<open>String\<close>. An
  object lists its members in source order; of members with the same key the last one
  counts.
\<close>

datatype json =
    JNull
  | JBool bool
  | JNumber bool string
  | JString string
  | JArray "json list"
  | JObject "(string \<times> json) list"

text \<open>Truthiness, as tested by \<^verbatim>\<open>||\<close>.\<close>

fun truthy :: "json \<Rightarrow> bool" where
  "truthy JNull = False"
| "truthy (JBool b) = b"
| "truthy (JNumber nonzero shown) = nonzero"
| "truthy (JString s) = (s \<noteq> [])"
| "truthy (JArray xs) = True"
| "truthy (JObject kvs) = True"

text \<open>
  The conversion to a string that \<^verbatim>\<open>new Error(value)\<close> applies to its argument. An
  array joins the conversions of its elements with commas, \<^verbatim>\<open>null\<close> elements giving
  the empty string. A plain object gives \<^verbatim>\<open>[object Object]\<close>, unless it has a member
  named \<^verbatim>\<open>toString\<close>, which shadows the inherited method and is not callable: then the
  conversion throws a TypeError (the result \<open>None\<close>).
\<close>

fun to_string :: "json \<Rightarrow> string option" and join_items :: "json list \<Rightarrow> string option" where
  "to_string JNull = Some ''null''"
| "to_string (JBool b) = Some (if b then ''true'' else ''false'')"
| "to_string (JNumber nonzero shown) = Some shown"
| "to_string (JString s) = Some s"
| "to_string (JArray xs) = join_items xs"
| "to_string (JObject kvs) =
     (if ''toString'' \<in> fst ` set kvs then None else Some ''[object Object]'')"
| "join_items [] = Some []"
| "join_items (x # xs) =
     (case (if x = JNull then Some [] else to_string x) of
        None \<Rightarrow> None
      | Some a \<Rightarrow>
          (if xs = [] then Some a
           else case join_items xs of None \<Rightarrow> None | Some b \<Rightarrow> Some (a @ '','' @ b)))"

text \<open>
  \<^verbatim>\<open>value.detail\<close> for a value other than \<^verbatim>\<open>null\<close>: the member of an object, and
  \<^verbatim>\<open>undefined\<close> (the result \<open>None\<close>) for an object without it and for every array,
  string, number and boolean.
\<close>

fun detail_of :: "json \<Rightarrow> json option" where
  "detail_of (JObject kvs) = map_of (rev kvs) ''detail''"
| "detail_of v = None"

text \<open>
  What \<^verbatim>\<open>await response.json().catch(() => ({}))\<close> yields for the body of a response
  that is not ok: the body is not JSON (the catch gives an empty object), or it is the
  JSON value parsed from it.
\<close>

datatype err_body = NotJson | Json json

text \<open>
  The outcome of one \<^verbatim>\<open>fetch\<close> followed by reading the body: the request is rejected
  (no response); the response is not ok (status outside 200..299), with its status, status
  text and body; the response is ok and its body is a value of the declared type; the
  response is ok and its body is the JSON literal \<^verbatim>\<open>null\<close>; or the response is ok
  and reading the body is rejected.
\<close>

datatype 'a http =
    Rejected string
  | NotOk nat string err_body
  | OkBody 'a
  | OkNull
  | OkUnreadable string

text \<open>Decimal rendering of a status code in a template literal.\<close>

definition digit_char :: "nat \<Rightarrow> char" where
  "digit_char d = ''0123456789'' ! d"

fun show_nat :: "nat \<Rightarrow> string" where
  "show_nat n =
     (if n < 10 then [digit_char n]
      else show_nat (n div 10) @ [digit_char (n mod 10)])"

declare show_nat.simps [simp del]

text \<open>The template \<^verbatim>\<open>`<prefix>: ${response.status} ${response.statusText}`\<close>.\<close>

definition status_line :: "string \<Rightarrow> nat \<Rightarrow> string \<Rightarrow> string" where
  "status_line prefix st txt = prefix @ '': '' @ show_nat st @ '' '' @ txt"

text \<open>\<^verbatim>\<open>new Error(value)\<close> for a value that is not \<^verbatim>\<open>undefined\<close>.\<close>

definition new_Error :: "json \<Rightarrow> js_error" where
  "new_Error v =
     (case to_string v of
        Some m \<Rightarrow> Error m
      | None \<Rightarrow> TypeError ''Cannot convert object to primitive value'')"

text \<open>
  What \<^verbatim>\<open>throw new Error(errorData.detail || fallback)\<close> throws: reading \<^verbatim>\<open>detail\<close>
  of \<^verbatim>\<open>null\<close> throws a TypeError; an absent or falsy \<^verbatim>\<open>detail\<close> gives the fallback;
  any other \<^verbatim>\<open>detail\<close> is converted to the message.
\<close>

definition thrown_for :: "err_body \<Rightarrow> string \<Rightarrow> js_error" where
  "thrown_for errorData fallback =
     (case errorData of
        NotJson \<Rightarrow> Error fallback
      | Json v \<Rightarrow>
          if v = JNull then TypeError (null_read ''detail'')
          else (case detail_of v of
                  None \<Rightarrow> Error fallback
                | Some d \<Rightarrow> if truthy d then new_Error d else Error fallback))"

text \<open>
  The three requests of the client. Each returns what \<^verbatim>\<open>response.json()\<close> resolves to,
  which is \<^verbatim>\<open>null\<close> (the result \<open>Inr None\<close>) when the body is the JSON literal
  \<^verbatim>\<open>null\<close>.
\<close>

definition createJob :: "PitstopJob http \<Rightarrow> js_error + PitstopJob option" where
  "createJob response =
     (case response of
        Rejected m \<Rightarrow> Inl (TypeError m)
      | NotOk st txt errorData \<Rightarrow> Inl (thrown_for errorData (status_line ''Upload failed'' st txt))
      | OkBody j \<Rightarrow> Inr (Some j)
      | OkNull \<Rightarrow> Inr None
      | OkUnreadable m \<Rightarrow> Inl (SyntaxError m))"

definition getJob :: "PitstopJob http \<Rightarrow> js_error + PitstopJob option" where
  "getJob response =
     (case response of
        Rejected m \<Rightarrow> Inl (TypeError m)
      | NotOk st txt errorData \<Rightarrow>
          Inl (thrown_for errorData (status_line ''Failed to fetch job'' st txt))
      | OkBody j \<Rightarrow> Inr (Some j)
      | OkNull \<Rightarrow> Inr None
      | OkUnreadable m \<Rightarrow> Inl (SyntaxError m))"

definition getJobs ::
  "PitstopJobListResponse http \<Rightarrow> js_error + PitstopJobListResponse option" where
  "getJobs response =
     (case response of
        Rejected m \<Rightarrow> Inl (TypeError m)
      | NotOk st txt errorData \<Rightarrow>
          Inl (thrown_for errorData (status_line ''Failed to fetch jobs'' st txt))
      | OkBody r \<Rightarrow> Inr (Some r)
      | OkNull \<Rightarrow> Inr None
      | OkUnreadable m \<Rightarrow> Inl (SyntaxError m))"

text \<open>The base URL, at its default (an environment variable can override it).\<close>

definition PITSTOP_API_BASE :: string where
  "PITSTOP_API_BASE = ''http://localhost:8000''"

definition getOutputUrl :: "string \<Rightarrow> string" where
  "getOutputUrl jobId = PITSTOP_API_BASE @ ''/api/pitstop/jobs/'' @ jobId @ ''/output''"


section \<open>The page controller (src/pages/PitstopPage.tsx)\<close>

text \<open>
  The requests the controller sends, in structured form: the multipart upload of a file,
  the fetch of one job, the fetch of a page of the job list with its \<open>limit\<close> and
  \<open>offset\<close>, and the fetch of a URL (the output video).
\<close>

datatype request =
    POST_jobs string
  | GET_job string
  | GET_jobs int int
  | GET_url string

text \<open>
  The state the component's callbacks read and write: the React state variables (the
  names that clash with a job field or a keyword carry the suffix \<open>_ui\<close>), the ref that holds the timer handle, and the
  part of the browser the callbacks act on: the interval timers that are live, the object
  URLs that are live, the counters from which the browser mints fresh timer handles and
  object URLs, and the requests sent so far. A \<^verbatim>\<open>File\<close> is identified by a string.
  Page numbers and sizes are JavaScript numbers holding integers. Console output, the
  snackbar flag and the scroll target are not part of the model.
\<close>

record world =
  file_ui :: "string option"
  fileUrl :: "string option"
  jobId :: "string option"
  job :: "PitstopJob option"
  status_ui :: UIJobStatus
  progress_ui :: real
  logs_ui :: "string list"
  error :: "string option"
  outputUrl :: "string option"
  outputBlobUrl :: "string option"
  isLoadingOutput :: bool
  runHistory :: "PitstopJobListItem list"
  isLoadingHistory :: bool
  loadingJobId :: "string option"
  page :: int
  rowsPerPage :: int
  totalJobs :: int
  pollIntervalRef :: "nat option"
  intervals :: "nat set"
  timerCount :: nat
  objectUrls :: "string set"
  urlCount :: nat
  requests :: "request list"

text \<open>The component as first rendered, in a browser with no timer and no object URL.\<close>

definition initial_world :: world where
  "initial_world =
     \<lparr>file_ui = None, fileUrl = None, jobId = None, job = None, status_ui = idle,
      progress_ui = 0, logs_ui = [], error = None, outputUrl = None, outputBlobUrl = None,
      isLoadingOutput = False, runHistory = [], isLoadingHistory = False,
      loadingJobId = None, page = 1, rowsPerPage = 5, totalJobs = 0,
      pollIntervalRef = None, intervals = {}, timerCount = 0, objectUrls = {},
      urlCount = 0, requests = []\<rparr>"

subsection \<open>Browser primitives\<close>

text \<open>
  \<^verbatim>\<open>window.setInterval\<close> returns a fresh positive handle and the timer is live until
  \<^verbatim>\<open>clearInterval\<close>; \<^verbatim>\<open>URL.createObjectURL\<close> returns a fresh non-empty URL that is
  live until \<^verbatim>\<open>URL.revokeObjectURL\<close>. Clearing or revoking something that is not live
  does nothing.
\<close>

definition setInterval :: "world \<Rightarrow> nat \<times> world" where
  "setInterval w =
     (let t = Suc (timerCount w)
      in (t, w\<lparr>intervals := insert t (intervals w), timerCount := t\<rparr>))"

definition clearInterval :: "nat \<Rightarrow> world \<Rightarrow> world" where
  "clearInterval t w = w\<lparr>intervals := intervals w - {t}\<rparr>"

definition createObjectURL :: "world \<Rightarrow> string \<times> world" where
  "createObjectURL w =
     (let n = Suc (urlCount w); u = ''blob:'' @ show_nat n
      in (u, w\<lparr>objectUrls := insert u (objectUrls w), urlCount := n\<rparr>))"

definition revokeObjectURL :: "string \<Rightarrow> world \<Rightarrow> world" where
  "revokeObjectURL u w = w\<lparr>objectUrls := objectUrls w - {u}\<rparr>"

text \<open>\<^verbatim>\<open>if (url) URL.revokeObjectURL(url)\<close> for a URL that may be null or empty.\<close>

definition revoke_if_set :: "string option \<Rightarrow> world \<Rightarrow> world" where
  "revoke_if_set url w =
     (case url of
        None \<Rightarrow> w
      | Some u \<Rightarrow> if u = [] then w else revokeObjectURL u w)"

definition send :: "request \<Rightarrow> world \<Rightarrow> world" where
  "send r w = w\<lparr>requests := requests w @ [r]\<rparr>"

subsection \<open>History paging\<close>

text \<open>
  \<open>fetchRunHistory pageNum perPage response w\<close>: the call with the given page and size in
  state \<open>w\<close>, where \<open>response\<close> is the outcome of the list request it sends. When
  the client returns \<^verbatim>\<open>null\<close>, reading \<^verbatim>\<open>response.items\<close> throws before any setter
  runs, and the catch block only logs.
\<close>

definition fetchRunHistory ::
  "int \<Rightarrow> int \<Rightarrow> PitstopJobListResponse http \<Rightarrow> world \<Rightarrow> world" where
  "fetchRunHistory pageNum perPage response w =
     (let w1 = w\<lparr>isLoadingHistory := True\<rparr>;
          offset = (pageNum - 1) * perPage;
          w2 = send (GET_jobs perPage offset) w1
      in case getJobs response of
           Inr (Some r) \<Rightarrow>
             w2\<lparr>runHistory := items r, totalJobs := total r, isLoadingHistory := False\<rparr>
         | Inr None \<Rightarrow> w2\<lparr>isLoadingHistory := False\<rparr>
         | Inl err \<Rightarrow> w2\<lparr>isLoadingHistory := False\<rparr>)"

text \<open>
  The effect \<^verbatim>\<open>useEffect(() => fetchRunHistory(page, rowsPerPage), [...])\<close>: after a
  render in which the page or the size has changed it fetches with the current values.
\<close>

definition history_effect :: "PitstopJobListResponse http \<Rightarrow> world \<Rightarrow> world" where
  "history_effect response w = fetchRunHistory (page w) (rowsPerPage w) response w"

definition handlePageChange :: "int \<Rightarrow> world \<Rightarrow> world" where
  "handlePageChange newPage w = w\<lparr>page := newPage\<rparr>"

definition handleRowsPerPageChange :: "int \<Rightarrow> world \<Rightarrow> world" where
  "handleRowsPerPageChange newRowsPerPage w = w\<lparr>rowsPerPage := newRowsPerPage, page := 1\<rparr>"

subsection \<open>Polling and object URLs\<close>

definition stopPolling :: "world \<Rightarrow> world" where
  "stopPolling w =
     (case pollIntervalRef w of
        None \<Rightarrow> w
      | Some t \<Rightarrow> if t = 0 then w else (clearInterval t w)\<lparr>pollIntervalRef := None\<rparr>)"

text \<open>
  \<^verbatim>\<open>cleanupBlobUrls\<close> and \<^verbatim>\<open>fetchOutputAsBlob\<close> are closures over the state variable
  \<^verbatim>\<open>outputBlobUrl\<close>: they read the value of the render that created them, passed here
  as the first argument \<open>captured\<close>. A callback invoked by the user interface belongs to
  the latest render, so there \<open>captured\<close> is the current \<open>outputBlobUrl\<close>.
\<close>

definition cleanupBlobUrls :: "string option \<Rightarrow> world \<Rightarrow> world" where
  "cleanupBlobUrls captured w =
     (case captured of
        None \<Rightarrow> w
      | Some u \<Rightarrow> if u = [] then w else (revokeObjectURL u w)\<lparr>outputBlobUrl := None\<rparr>)"

text \<open>
  \<open>fetchOutputAsBlob captured jid res w\<close>, where \<open>res\<close> is the outcome of fetching the
  output URL and reading it as a blob (the bytes themselves play no role; a body that
  spells \<^verbatim>\<open>null\<close> is a blob like any other).
\<close>

definition fetchOutputAsBlob :: "string option \<Rightarrow> string \<Rightarrow> unit http \<Rightarrow> world \<Rightarrow> world" where
  "fetchOutputAsBlob captured jid res w =
     (let w1 = send (GET_url (getOutputUrl jid)) (w\<lparr>isLoadingOutput := True\<rparr>)
      in case res of
           Rejected m \<Rightarrow> w1\<lparr>error := Some m, isLoadingOutput := False\<rparr>
         | NotOk st txt b \<Rightarrow>
             w1\<lparr>error := Some (status_line ''Failed to fetch output video'' st txt),
                isLoadingOutput := False\<rparr>
         | OkUnreadable m \<Rightarrow> w1\<lparr>error := Some m, isLoadingOutput := False\<rparr>
         | OkBody blob \<Rightarrow>
             (let w2 = revoke_if_set captured w1;
                  (blobUrl, w3) = createObjectURL w2
              in w3\<lparr>outputBlobUrl := Some blobUrl, isLoadingOutput := False\<rparr>)
         | OkNull \<Rightarrow>
             (let w2 = revoke_if_set captured w1;
                  (blobUrl, w3) = createObjectURL w2
              in w3\<lparr>outputBlobUrl := Some blobUrl, isLoadingOutput := False\<rparr>))"

text \<open>
  A poll tick is asynchronous. \<open>pollJobStatus_send\<close> is its synchronous start (the
  request goes out); \<open>pollJobStatus_recv captured jid response res\<close> is what runs when the
  response arrives, \<open>res\<close> being the outcome of the output fetch should the tick issue
  one. \<open>pollJobStatus\<close> is a tick whose response arrives before anything else happens.
  When the client returns \<^verbatim>\<open>null\<close>, \<^verbatim>\<open>setJob(null)\<close> runs and reading
  \<^verbatim>\<open>jobData.status\<close> throws into the catch block.
\<close>

definition pollJobStatus_send :: "string \<Rightarrow> world \<Rightarrow> world" where
  "pollJobStatus_send jid w = send (GET_job jid) w"

definition pollJobStatus_recv ::
  "string option \<Rightarrow> string \<Rightarrow> PitstopJob http \<Rightarrow> unit http \<Rightarrow> world \<Rightarrow> world" where
  "pollJobStatus_recv captured jid response res w =
     (case getJob response of
        Inl err \<Rightarrow> stopPolling (w\<lparr>error := Some (message err)\<rparr>)
      | Inr None \<Rightarrow> stopPolling (w\<lparr>job := None, error := Some (null_read ''status'')\<rparr>)
      | Inr (Some jobData) \<Rightarrow>
          (let w1 = w\<lparr>job := Some jobData,
                      status_ui := mapBackendToUIStatus (Some (status jobData)) (stage jobData)\<rparr>;
               w2 = (case progress jobData of
                       None \<Rightarrow> w1
                     | Some p \<Rightarrow> w1\<lparr>progress_ui := p * 100\<rparr>);
               w3 = (case logs jobData of
                       None \<Rightarrow> w2
                     | Some l \<Rightarrow> if length l > 0 then w2\<lparr>logs_ui := l\<rparr> else w2)
           in if status jobData = ''COMPLETE'' then
                fetchOutputAsBlob captured jid res
                  (stopPolling (w3\<lparr>outputUrl := Some (getOutputUrl jid), progress_ui := 100\<rparr>))
              else if status jobData = ''FAILED'' then
                stopPolling (w3\<lparr>error := Some ''Job processing failed. Check logs for details.''\<rparr>)
              else w3))"

definition pollJobStatus ::
  "string option \<Rightarrow> string \<Rightarrow> PitstopJob http \<Rightarrow> unit http \<Rightarrow> world \<Rightarrow> world" where
  "pollJobStatus captured jid response res w =
     pollJobStatus_recv captured jid response res (pollJobStatus_send jid w)"

text \<open>
  \<^verbatim>\<open>startPolling\<close>: the first poll is started (its response arrives later), then the
  interval is created and its handle stored in the ref.
\<close>

definition startPolling :: "string \<Rightarrow> world \<Rightarrow> world" where
  "startPolling jid w =
     (let w1 = pollJobStatus_send jid w;
          (t, w2) = setInterval w1
      in w2\<lparr>pollIntervalRef := Some t\<rparr>)"


subsection \<open>User actions\<close>

text \<open>The state reset shared by file selection and reset.\<close>

definition clear_job :: "world \<Rightarrow> world" where
  "clear_job w =
     w\<lparr>status_ui := idle, progress_ui := 0, logs_ui := [], outputUrl := None,
       jobId := None, job := None, error := None\<rparr>"

definition handleFileSelect :: "string option \<Rightarrow> world \<Rightarrow> world" where
  "handleFileSelect selectedFile w =
     (let w1 = cleanupBlobUrls (outputBlobUrl w) (stopPolling w);
          w2 = revoke_if_set (fileUrl w) w1;
          w3 = w2\<lparr>file_ui := selectedFile\<rparr>;
          w4 = (case selectedFile of
                  Some f \<Rightarrow> (let (url, w') = createObjectURL w3 in w'\<lparr>fileUrl := Some url\<rparr>)
                | None \<Rightarrow> w3\<lparr>fileUrl := None\<rparr>)
      in clear_job w4)"

definition handleReset :: "world \<Rightarrow> world" where
  "handleReset w =
     (let w1 = cleanupBlobUrls (outputBlobUrl w) (stopPolling w);
          w2 = revoke_if_set (fileUrl w) w1
      in clear_job (w2\<lparr>file_ui := None, fileUrl := None\<rparr>))"

text \<open>
  \<^verbatim>\<open>runJob\<close> awaits the upload. \<open>runJob_begin\<close> is the part that runs at the click, up
  to and including the request; \<open>runJob_resume response\<close> is the part that runs when the
  outcome of the upload arrives. Without a selected file the click only sets the error
  and nothing is resumed. When the client returns \<^verbatim>\<open>null\<close>, reading
  \<^verbatim>\<open>response.job_id\<close> throws before any setter runs.
\<close>

definition runJob_begin :: "world \<Rightarrow> world" where
  "runJob_begin w =
     (case file_ui w of
        None \<Rightarrow> w\<lparr>error := Some ''Please select a video file first.''\<rparr>
      | Some f \<Rightarrow>
          (let w1 = cleanupBlobUrls (outputBlobUrl w) w;
               w2 = w1\<lparr>error := None, logs_ui := [], progress_ui := 0, outputUrl := None,
                      job := None\<rparr>;
               w3 = w2\<lparr>status_ui := uploading,
                      logs_ui := [''[INFO] Uploading video to server...'']\<rparr>
           in send (POST_jobs f) w3))"

definition runJob_resume :: "PitstopJob http \<Rightarrow> world \<Rightarrow> world" where
  "runJob_resume response w =
     (case createJob response of
        Inr (Some r) \<Rightarrow>
          startPolling (job_id r)
            (w\<lparr>jobId := Some (job_id r), job := Some r,
               logs_ui := logs_ui w @ [''[INFO] Job created: '' @ job_id r],
               status_ui := mapBackendToUIStatus (Some (status r)) (stage r)\<rparr>)
      | Inr None \<Rightarrow>
          w\<lparr>status_ui := failed, error := Some (null_read ''job_id''),
            logs_ui := logs_ui w @ [''[ERROR] '' @ null_read ''job_id'']\<rparr>
      | Inl err \<Rightarrow>
          w\<lparr>status_ui := failed, error := Some (message err),
            logs_ui := logs_ui w @ [''[ERROR] '' @ message err]\<rparr>)"

definition runJob :: "PitstopJob http \<Rightarrow> world \<Rightarrow> world" where
  "runJob response w =
     (case file_ui w of
        None \<Rightarrow> runJob_begin w
      | Some f \<Rightarrow> runJob_resume response (runJob_begin w))"

text \<open>
  \<open>handleLoadJob historyJob response res w\<close>: loading a row of the history, where
  \<open>response\<close> is the outcome of fetching the full job and \<open>res\<close> that of fetching the
  output, for the requests the call sends. Both closures it calls belong to the render of
  the call, so both see the \<open>outputBlobUrl\<close> of state \<open>w\<close>. When the client returns
  \<^verbatim>\<open>null\<close>, the setters up to \<^verbatim>\<open>setJob(null)\<close> run and reading
  \<^verbatim>\<open>fullJob.status\<close> throws into the catch block.
\<close>

definition handleLoadJob ::
  "PitstopJobListItem \<Rightarrow> PitstopJob http \<Rightarrow> unit http \<Rightarrow> world \<Rightarrow> world" where
  "handleLoadJob historyJob response res w =
     (if status_li historyJob \<noteq> ''COMPLETE'' \<or> \<not> has_output historyJob then w
      else
        (let jid = job_id_li historyJob;
             w1 = w\<lparr>loadingJobId := Some jid\<rparr>;
             w2 = cleanupBlobUrls (outputBlobUrl w) (stopPolling w1);
             w3 = send (GET_job jid) w2
         in case getJob response of
              Inr (Some fullJob) \<Rightarrow>
                (let w4 = w3\<lparr>file_ui := None, fileUrl := None, jobId := Some jid,
                            job := Some fullJob,
                            status_ui :=
                              mapBackendToUIStatus (Some (status fullJob)) (stage fullJob),
                            progress_ui :=
                              (case progress fullJob of Some p \<Rightarrow> p * 100 | None \<Rightarrow> 100),
                            logs_ui :=
                              (case logs fullJob of
                                 Some l \<Rightarrow> l
                               | None \<Rightarrow> [''[INFO] Loaded from run history'']),
                            outputUrl := Some (getOutputUrl jid), error := None\<rparr>;
                     w5 = fetchOutputAsBlob (outputBlobUrl w) jid res w4
                 in w5\<lparr>loadingJobId := None\<rparr>)
            | Inr None \<Rightarrow>
                w3\<lparr>file_ui := None, fileUrl := None, jobId := Some jid, job := None,
                   error := Some (null_read ''status''), loadingJobId := None\<rparr>
            | Inl err \<Rightarrow> w3\<lparr>error := Some (message err), loadingJobId := None\<rparr>))"

subsection \<open>What the view derives from the state\<close>

definition isRunning :: "world \<Rightarrow> bool" where
  "isRunning w = (status_ui w \<in> {uploading, queued, processing, rendering})"

definition canRun :: "world \<Rightarrow> bool" where
  "canRun w = (file_ui w \<noteq> None \<and> \<not> isRunning w)"

text \<open>The play button of a history row calls \<^verbatim>\<open>onLoadJob\<close> under this condition.\<close>

definition canPlay :: "PitstopJobListItem \<Rightarrow> world \<Rightarrow> bool" where
  "canPlay historyJob w =
     (status_li historyJob = ''COMPLETE'' \<and> has_output historyJob
      \<and> loadingJobId w \<noteq> Some (job_id_li historyJob))"

text \<open>The stepper position shown by \<^verbatim>\<open>JobProgress\<close>.\<close>

fun getActiveStep :: "UIJobStatus \<Rightarrow> string option \<Rightarrow> int" where
  "getActiveStep idle sg = - 1"
| "getActiveStep uploading sg = 0"
| "getActiveStep queued sg = (if sg = Some ''UPLOAD'' then 0 else 1)"
| "getActiveStep processing sg = 2"
| "getActiveStep rendering sg = 3"
| "getActiveStep complete sg = 5"
| "getActiveStep failed sg = - 1"

text \<open>\<^verbatim>\<open>JobProgress\<close> receives \<^verbatim>\<open>status\<close> and \<^verbatim>\<open>job?.stage\<close>.\<close>

definition activeStep :: "world \<Rightarrow> int" where
  "activeStep w =
     getActiveStep (status_ui w) (case job w of None \<Rightarrow> None | Some j \<Rightarrow> stage j)"


subsection \<open>The poll loop\<close>

text \<open>A fetched snapshot whose status is COMPLETE or FAILED.\<close>

definition terminal_snapshot :: "PitstopJob http \<Rightarrow> bool" where
  "terminal_snapshot response =
     (case response of
        OkBody j \<Rightarrow> status j = ''COMPLETE'' \<or> status j = ''FAILED''
      | _ \<Rightarrow> False)"

text \<open>
  The status fetch yields no snapshot: the request is rejected, the response is not ok,
  or its body is \<^verbatim>\<open>null\<close> or cannot be read.
\<close>

definition fetch_failed :: "PitstopJob http \<Rightarrow> bool" where
  "fetch_failed response =
     (case response of
        Rejected m \<Rightarrow> True
      | NotOk st txt b \<Rightarrow> True
      | OkBody j \<Rightarrow> False
      | OkNull \<Rightarrow> True
      | OkUnreadable m \<Rightarrow> True)"

text \<open>The output fetch fails: the request is rejected, or the response is not ok or unreadable.\<close>

definition output_failed :: "unit http \<Rightarrow> bool" where
  "output_failed res =
     (case res of
        Rejected m \<Rightarrow> True
      | NotOk st txt b \<Rightarrow> True
      | OkBody blob \<Rightarrow> False
      | OkNull \<Rightarrow> False
      | OkUnreadable m \<Rightarrow> True)"

text \<open>
  What can happen to the poller while the loop that \<^verbatim>\<open>startPolling\<close> created for job
  \<open>jid\<close> with timer \<open>t\<close> exists: that timer fires, which starts a poll if the timer is
  still live; the response to some poll arrives, of this loop or of an earlier one (the
  code applies every response, also one that arrives after its loop was stopped), handled
  by the closure of its own loop; someone calls \<^verbatim>\<open>stopPolling\<close>, as reset, file
  selection, loading from the history and the cleanup of the effect on the input URL
  (which runs when that URL changes and at unmounting) do; or \<^verbatim>\<open>startPolling\<close> is
  called again, as the arrival of a created job does. \<open>run_loop\<close> runs a sequence of
  such events.
\<close>

datatype poll_event =
    Fire
  | Reply "string option" string "PitstopJob http" "unit http"
  | Cancel
  | Start string

fun run_loop :: "nat \<Rightarrow> string \<Rightarrow> poll_event list \<Rightarrow> world \<Rightarrow> world" where
  "run_loop t jid [] w = w"
| "run_loop t jid (Fire # es) w =
     run_loop t jid es (if t \<in> intervals w then pollJobStatus_send jid w else w)"
| "run_loop t jid (Reply captured j response res # es) w =
     run_loop t jid es (pollJobStatus_recv captured j response res w)"
| "run_loop t jid (Cancel # es) w = run_loop t jid es (stopPolling w)"
| "run_loop t jid (Start j # es) w = run_loop t jid es (startPolling j w)"

text \<open>
  The events that, by the claim as amended, end polling: a response with a terminal
  snapshot, a status fetch without a snapshot, an explicit stop.
\<close>

fun stops :: "poll_event \<Rightarrow> bool" where
  "stops Fire = False"
| "stops (Reply captured j response res) = (terminal_snapshot response \<or> fetch_failed response)"
| "stops Cancel = True"
| "stops (Start j) = False"

text \<open>The poller is started again before any of the events has ended polling.\<close>

fun restarted_while_active :: "poll_event list \<Rightarrow> bool" where
  "restarted_while_active [] = False"
| "restarted_while_active (Start j # es) = True"
| "restarted_while_active (e # es) = (if stops e then False else restarted_while_active es)"

text \<open>
  The loop with timer \<open>t\<close> is the controller's live loop: the ref holds its timer.
  Respectively, the poller is at rest. Timer handles are minted from the counter, so a
  timer that exists is at most the counter.
\<close>

definition polling :: "nat \<Rightarrow> world \<Rightarrow> bool" where
  "polling t w = (pollIntervalRef w = Some t \<and> t \<noteq> 0 \<and> t \<in> intervals w)"

definition stopped :: "nat \<Rightarrow> world \<Rightarrow> bool" where
  "stopped t w = (pollIntervalRef w = None \<and> t \<notin> intervals w)"

text \<open>A snapshot of job \<open>jid\<close> with the given status and stage and nothing else.\<close>

definition job_at :: "string \<Rightarrow> string \<Rightarrow> string \<Rightarrow> PitstopJob" where
  "job_at jid st sg =
     \<lparr>job_id = jid, status = st, stage = Some sg, progress = None, logs = None\<rparr>"

text \<open>A history row of job \<open>jid\<close> with the given status and output flag.\<close>

definition history_row :: "string \<Rightarrow> string \<Rightarrow> bool \<Rightarrow> PitstopJobListItem" where
  "history_row jid st out =
     \<lparr>job_id_li = jid, status_li = st, stage_li = st, has_output = out\<rparr>"

subsection \<open>Sessions of user actions\<close>

text \<open>
  What the user and the network can do to the page: select a file (the upload panel is
  disabled while a job runs), click Run (the button is disabled unless \<open>canRun\<close>), click
  the play button of a history row (enabled under \<open>canPlay\<close>; the two outcomes are those
  of the requests the load sends), and the arrival of the outcome of a pending upload.
  \<open>ui_run pending es w\<close> runs the events \<open>es\<close> from state \<open>w\<close> with \<open>pending\<close> uploads
  in flight; it is \<open>None\<close> when an event is not possible where it occurs.
\<close>

datatype ui_event =
    SelectFile "string option"
  | ClickRun
  | ClickPlay PitstopJobListItem "PitstopJob http" "unit http"
  | UploadReply "PitstopJob http"

fun ui_run :: "nat \<Rightarrow> ui_event list \<Rightarrow> world \<Rightarrow> world option" where
  "ui_run pending [] w = Some w"
| "ui_run pending (SelectFile f # es) w =
     (if isRunning w then None else ui_run pending es (handleFileSelect f w))"
| "ui_run pending (ClickRun # es) w =
     (if canRun w then ui_run (Suc pending) es (runJob_begin w) else None)"
| "ui_run pending (ClickPlay h response res # es) w =
     (if canPlay h w then ui_run pending es (handleLoadJob h response res w) else None)"
| "ui_run pending (UploadReply response # es) w =
     (case pending of
        0 \<Rightarrow> None
      | Suc n \<Rightarrow> ui_run n es (runJob_resume response w))"

text \<open>
  A session: select a file and run it; while the upload is pending, load a finished job
  from the history, select another file and run that one too; then both uploads are
  answered with a queued job.
\<close>

definition two_uploads :: "ui_event list" where
  "two_uploads =
     [SelectFile (Some ''a.mp4''), ClickRun,
      ClickPlay (history_row ''j0'' ''COMPLETE'' True)
        (OkBody (job_at ''j0'' ''COMPLETE'' ''COMPLETE'')) (OkBody ()),
      SelectFile (Some ''b.mp4''), ClickRun,
      UploadReply (OkBody (job_at ''j1'' ''QUEUED'' ''UPLOAD'')),
      UploadReply (OkBody (job_at ''j2'' ''QUEUED'' ''UPLOAD''))]"

section \<open>The projection table\<close>

text \<open>
  Claim C1. For each of the seven rows of the projection table the two functions return
  the tabulated pair: (idle, -1) without a status; (queued, 0) for QUEUED/UPLOAD;
  (queued, 1) for QUEUED with any other stage; (rendering, 3) for PROCESSING/RENDERING;
  (processing, 2) for PROCESSING with any other stage; (complete, 5) for COMPLETE and
  (failed, -1) for FAILED, whatever the stage.
\<close>

theorem projection_table:
  "mapBackendToUIStatus None sg = idle \<and> getStepFromBackend None sg = - 1
   \<and> mapBackendToUIStatus (Some ''QUEUED'') (Some ''UPLOAD'') = queued
   \<and> getStepFromBackend (Some ''QUEUED'') (Some ''UPLOAD'') = 0
   \<and> (sg \<noteq> Some ''UPLOAD'' \<longrightarrow>
        mapBackendToUIStatus (Some ''QUEUED'') sg = queued
        \<and> getStepFromBackend (Some ''QUEUED'') sg = 1)
   \<and> mapBackendToUIStatus (Some ''PROCESSING'') (Some ''RENDERING'') = rendering
   \<and> getStepFromBackend (Some ''PROCESSING'') (Some ''RENDERING'') = 3
   \<and> (sg \<noteq> Some ''RENDERING'' \<longrightarrow>
        mapBackendToUIStatus (Some ''PROCESSING'') sg = processing
        \<and> getStepFromBackend (Some ''PROCESSING'') sg = 2)
   \<and> mapBackendToUIStatus (Some ''COMPLETE'') sg = complete
   \<and> getStepFromBackend (Some ''COMPLETE'') sg = 5
   \<and> mapBackendToUIStatus (Some ''FAILED'') sg = failed
   \<and> getStepFromBackend (Some ''FAILED'') sg = - 1"
  by (simp add: mapBackendToUIStatus_def getStepFromBackend_def falsy_str_def)

theorem projection_table_witness:
  "Some ''TRACKING'' \<noteq> Some ''UPLOAD'' \<and> Some ''TRACKING'' \<noteq> Some ''RENDERING''
   \<and> mapBackendToUIStatus (Some ''QUEUED'') (Some ''TRACKING'') = queued
   \<and> getStepFromBackend (Some ''QUEUED'') (Some ''TRACKING'') = 1
   \<and> mapBackendToUIStatus (Some ''PROCESSING'') (Some ''TRACKING'') = processing
   \<and> getStepFromBackend (Some ''PROCESSING'') (Some ''TRACKING'') = 2"
  using projection_table [of "Some ''TRACKING''"] by simp

text \<open>
  Claim C9. A status outside the four known ones (an absent one included) is projected to
  idle and to step -1; for every input the step lies in the declared range, and it is
  never 4.
\<close>

theorem projection_unknown_status:
  "(st \<notin> known_statuses \<longrightarrow>
      mapBackendToUIStatus st sg = idle \<and> getStepFromBackend st sg = - 1)
   \<and> getStepFromBackend st sg \<in> stepper_positions
   \<and> getStepFromBackend st sg \<noteq> 4"
  by (simp add: mapBackendToUIStatus_def getStepFromBackend_def known_statuses_def
      stepper_positions_def)

theorem projection_unknown_status_witness:
  "Some ''CANCELLED'' \<notin> known_statuses
   \<and> mapBackendToUIStatus (Some ''CANCELLED'') (Some ''UPLOAD'') = idle
   \<and> getStepFromBackend (Some ''CANCELLED'') (Some ''UPLOAD'') = - 1"
  using projection_unknown_status [of "Some ''CANCELLED''" "Some ''UPLOAD''"]
  by (simp add: known_statuses_def)

section \<open>Upload errors\<close>

text \<open>
  Claim C7, as amended. For a response to the job submission that is not ok and whose
  body is not the JSON literal \<^verbatim>\<open>null\<close>: when the \<^verbatim>\<open>detail\<close> of the body is a
  string that is not empty, the error thrown carries it; when the \<^verbatim>\<open>detail\<close> is
  absent or falsy (\<^verbatim>\<open>null\<close>, \<^verbatim>\<open>false\<close>, zero or the empty string), or the body
  is not JSON, the error carries the message made of \<^verbatim>\<open>Upload failed:\<close>, the status
  code and the status text. A truthy \<^verbatim>\<open>detail\<close> that is not a string is not covered.
\<close>

theorem upload_error_message:
  "(detail_of v = Some (JString d) \<and> d \<noteq> [] \<longrightarrow>
      createJob (NotOk st txt (Json v)) = Inl (Error d))
   \<and> (v \<noteq> JNull
        \<and> (detail_of v = None \<or> detail_of v = Some JNull \<or> detail_of v = Some (JBool False)
            \<or> detail_of v = Some (JNumber False r) \<or> detail_of v = Some (JString [])) \<longrightarrow>
      createJob (NotOk st txt (Json v))
        = Inl (Error (''Upload failed: '' @ show_nat st @ '' '' @ txt)))
   \<and> createJob (NotOk st txt NotJson)
       = Inl (Error (''Upload failed: '' @ show_nat st @ '' '' @ txt))"
proof -
  have a: "detail_of v = Some (JString d) \<and> d \<noteq> [] \<longrightarrow>
      createJob (NotOk st txt (Json v)) = Inl (Error d)"
    by (cases v) (simp_all add: createJob_def thrown_for_def new_Error_def)
  have b: "v \<noteq> JNull
        \<and> (detail_of v = None \<or> detail_of v = Some JNull \<or> detail_of v = Some (JBool False)
            \<or> detail_of v = Some (JNumber False r) \<or> detail_of v = Some (JString [])) \<longrightarrow>
      createJob (NotOk st txt (Json v))
        = Inl (Error (''Upload failed: '' @ show_nat st @ '' '' @ txt))"
    by (auto simp: createJob_def thrown_for_def status_line_def)
  have c: "createJob (NotOk st txt NotJson)
       = Inl (Error (''Upload failed: '' @ show_nat st @ '' '' @ txt))"
    by (simp add: createJob_def thrown_for_def status_line_def)
  show ?thesis using a b c by blast
qed

theorem upload_error_message_witness:
  "detail_of (JObject [(''detail'', JString ''File too large'')]) = Some (JString ''File too large'')
   \<and> ''File too large'' \<noteq> []
   \<and> createJob (NotOk 413 ''Payload Too Large''
        (Json (JObject [(''detail'', JString ''File too large'')]))) = Inl (Error ''File too large'')
   \<and> JObject [(''message'', JString ''no such route'')] \<noteq> JNull
   \<and> detail_of (JObject [(''message'', JString ''no such route'')]) = None
   \<and> createJob (NotOk 404 ''Not Found'' (Json (JObject [(''message'', JString ''no such route'')])))
       = Inl (Error ''Upload failed: 404 Not Found'')
   \<and> createJob (NotOk 413 ''Payload Too Large'' NotJson)
       = Inl (Error ''Upload failed: 413 Payload Too Large'')"
  using upload_error_message [of "JObject [(''detail'', JString ''File too large'')]"
      "''File too large''" 413 "''Payload Too Large''"]
    upload_error_message [of "JObject [(''message'', JString ''no such route'')]"
      "''File too large''" 404 "''Not Found''"]
  by (simp add: show_nat.simps digit_char_def)

text \<open>
  Claim C7 as stated fails for a \<^verbatim>\<open>detail\<close> that is present and empty: the error does
  not carry it, it carries the status line.
\<close>

theorem upload_error_empty_detail_counterexample:
  "createJob (NotOk 500 ''Internal Server Error'' (Json (JObject [(''detail'', JString [])])))
     = Inl (Error ''Upload failed: 500 Internal Server Error'')
   \<and> createJob (NotOk 500 ''Internal Server Error'' (Json (JObject [(''detail'', JString [])])))
       \<noteq> Inl (Error [])"
  by (simp add: createJob_def thrown_for_def status_line_def show_nat.simps digit_char_def)

text \<open>
  What the amended claim leaves out: a \<^verbatim>\<open>detail\<close> that is a list, as a validation
  error of the backend framework sends it, reaches the error as the conversion of the
  list to a string.
\<close>

lemma upload_error_list_detail:
  "createJob (NotOk 422 ''Unprocessable Entity''
     (Json (JObject [(''detail'',
        JArray [JObject [(''loc'', JArray [JString ''body'', JString ''file'']),
                         (''msg'', JString ''field required'')]])])))
     = Inl (Error ''[object Object]'')"
  by (simp add: createJob_def thrown_for_def new_Error_def)

section \<open>History paging\<close>

text \<open>
  Claim C6. A history fetch for page \<open>p\<close> (counted from 1) and size \<open>r\<close> sends the list
  request with limit \<open>r\<close> and offset \<open>(p - 1) * r\<close>, and with an ok response replaces the
  items and the total by the server's. Changing the rows per page to \<open>n\<close> sets the page
  to 1, so that the fetch that follows asks for limit \<open>n\<close> at offset 0.
\<close>

theorem history_fetch_window:
  "requests (fetchRunHistory p r response w) = requests w @ [GET_jobs r ((p - 1) * r)]
   \<and> (response = OkBody resp \<longrightarrow>
        runHistory (fetchRunHistory p r response w) = items resp
        \<and> totalJobs (fetchRunHistory p r response w) = total resp)
   \<and> page (handleRowsPerPageChange n w) = 1
   \<and> rowsPerPage (handleRowsPerPageChange n w) = n
   \<and> requests (history_effect response (handleRowsPerPageChange n w))
       = requests w @ [GET_jobs n 0]"
  by (simp add: fetchRunHistory_def history_effect_def handleRowsPerPageChange_def send_def
      getJobs_def Let_def split: http.splits sum.splits)

theorem history_fetch_window_witness:
  "page (handleRowsPerPageChange 10 (initial_world\<lparr>page := 3, rowsPerPage := 5\<rparr>)) = 1
   \<and> requests (history_effect (OkBody \<lparr>items = [], total = 12, limit = 10, offset = 0\<rparr>)
        (handleRowsPerPageChange 10 (initial_world\<lparr>page := 3, rowsPerPage := 5\<rparr>)))
       = [GET_jobs 10 0]
   \<and> totalJobs (fetchRunHistory 3 5 (OkBody \<lparr>items = [], total = 12, limit = 5, offset = 10\<rparr>)
        initial_world) = 12
   \<and> requests (fetchRunHistory 3 5 (OkBody \<lparr>items = [], total = 12, limit = 5, offset = 10\<rparr>)
        initial_world) = [GET_jobs 5 10]"
  using history_fetch_window [of 3 5 "OkBody \<lparr>items = [], total = 12, limit = 5, offset = 10\<rparr>"
      initial_world "\<lparr>items = [], total = 12, limit = 5, offset = 10\<rparr>" 10]
    history_fetch_window [of 3 5 "OkBody \<lparr>items = [], total = 12, limit = 10, offset = 0\<rparr>"
      "initial_world\<lparr>page := 3, rowsPerPage := 5\<rparr>" "\<lparr>items = [], total = 12, limit = 10, offset = 0\<rparr>" 10]
  by (simp add: initial_world_def)

text \<open>
  Claim C10. When the list request fails, the history fetch keeps the items, the total
  and the error field as they were: apart from the request sent, the state is the one
  before the call with the loading flag off.
\<close>

theorem history_fetch_failure:
  "getJobs response = Inl err \<Longrightarrow>
     fetchRunHistory p r response w
       = w\<lparr>isLoadingHistory := False, requests := requests w @ [GET_jobs r ((p - 1) * r)]\<rparr>
     \<and> runHistory (fetchRunHistory p r response w) = runHistory w
     \<and> totalJobs (fetchRunHistory p r response w) = totalJobs w
     \<and> error (fetchRunHistory p r response w) = error w
     \<and> isLoadingHistory (fetchRunHistory p r response w) = False"
  by (simp add: fetchRunHistory_def send_def Let_def)

theorem history_fetch_failure_witness:
  "getJobs (NotOk 503 ''Service Unavailable'' NotJson)
     = Inl (Error ''Failed to fetch jobs: 503 Service Unavailable'')
   \<and> runHistory (fetchRunHistory 2 5 (NotOk 503 ''Service Unavailable'' NotJson)
        (initial_world\<lparr>totalJobs := 7\<rparr>)) = []
   \<and> totalJobs (fetchRunHistory 2 5 (NotOk 503 ''Service Unavailable'' NotJson)
        (initial_world\<lparr>totalJobs := 7\<rparr>)) = 7
   \<and> error (fetchRunHistory 2 5 (NotOk 503 ''Service Unavailable'' NotJson)
        (initial_world\<lparr>totalJobs := 7\<rparr>)) = None"
proof -
  have h: "getJobs (NotOk 503 ''Service Unavailable'' NotJson)
     = Inl (Error ''Failed to fetch jobs: 503 Service Unavailable'')"
    by (simp add: getJobs_def thrown_for_def status_line_def show_nat.simps digit_char_def)
  show ?thesis
    using h history_fetch_failure [OF h, of 2 5 "initial_world\<lparr>totalJobs := 7\<rparr>"]
    by (simp add: initial_world_def)
qed

section \<open>Stopping and releasing\<close>

text \<open>
  Claim C8. Stopping the poller twice is the same as stopping it once. Releasing the
  output handle when there is none changes nothing; releasing it twice, whether through
  the same closure or through the closure of the next render, is the same as releasing it
  once; and revoking an object URL that is not live changes nothing.
\<close>

theorem stop_release_idempotent:
  "stopPolling (stopPolling w) = stopPolling w
   \<and> cleanupBlobUrls None w = w
   \<and> cleanupBlobUrls captured (cleanupBlobUrls captured w) = cleanupBlobUrls captured w
   \<and> cleanupBlobUrls (outputBlobUrl (cleanupBlobUrls (outputBlobUrl w) w))
        (cleanupBlobUrls (outputBlobUrl w) w) = cleanupBlobUrls (outputBlobUrl w) w
   \<and> (u \<notin> objectUrls w \<longrightarrow> revokeObjectURL u w = w)
   \<and> revokeObjectURL u (revokeObjectURL u w) = revokeObjectURL u w"
  by (simp add: stopPolling_def clearInterval_def cleanupBlobUrls_def revokeObjectURL_def
      falsy_str_def split: option.splits)

theorem stop_release_idempotent_witness:
  "''blob:7'' \<notin> objectUrls initial_world
   \<and> revokeObjectURL ''blob:7'' initial_world = initial_world
   \<and> stopPolling (stopPolling (startPolling ''j1'' initial_world))
       = stopPolling (startPolling ''j1'' initial_world)
   \<and> intervals (stopPolling (startPolling ''j1'' initial_world)) = {}"
  using stop_release_idempotent [of initial_world None "''blob:7''"]
    stop_release_idempotent [of "startPolling ''j1'' initial_world" None "''blob:7''"]
  by (simp add: initial_world_def startPolling_def pollJobStatus_send_def send_def
      setInterval_def stopPolling_def clearInterval_def)

section \<open>When polling ends\<close>

lemma fetchOutputAsBlob_timer [simp]:
  "pollIntervalRef (fetchOutputAsBlob c jid res w) = pollIntervalRef w"
  "intervals (fetchOutputAsBlob c jid res w) = intervals w"
  "timerCount (fetchOutputAsBlob c jid res w) = timerCount w"
  by (simp_all add: fetchOutputAsBlob_def send_def revoke_if_set_def revokeObjectURL_def
      createObjectURL_def Let_def split: http.splits prod.splits option.splits)

lemma stopPolling_polling: "polling t w \<Longrightarrow> stopped t (stopPolling w)"
  by (simp add: polling_def stopped_def stopPolling_def clearInterval_def)

lemma stopPolling_stopped: "stopped t w \<Longrightarrow> stopPolling w = w"
  by (simp add: stopped_def stopPolling_def)

lemma stopPolling_dead: "t \<notin> intervals w \<Longrightarrow> t \<notin> intervals (stopPolling w)"
  by (simp add: stopPolling_def clearInterval_def split: option.splits)

lemma stopPolling_timerCount [simp]: "timerCount (stopPolling w) = timerCount w"
  by (simp add: stopPolling_def clearInterval_def split: option.splits)

lemma stopPolling_other_timer:
  "t \<in> intervals w \<Longrightarrow> pollIntervalRef w \<noteq> Some t \<Longrightarrow>
     t \<in> intervals (stopPolling w) \<and> pollIntervalRef (stopPolling w) \<noteq> Some t"
  by (auto simp: stopPolling_def clearInterval_def split: option.splits)

lemma send_timer [simp]:
  "pollIntervalRef (pollJobStatus_send jid w) = pollIntervalRef w"
  "intervals (pollJobStatus_send jid w) = intervals w"
  "timerCount (pollJobStatus_send jid w) = timerCount w"
  by (simp_all add: pollJobStatus_send_def send_def)

lemma startPolling_timer:
  "pollIntervalRef (startPolling jid w) = Some (Suc (timerCount w))"
  "intervals (startPolling jid w) = insert (Suc (timerCount w)) (intervals w)"
  "timerCount (startPolling jid w) = Suc (timerCount w)"
  by (simp_all add: startPolling_def setInterval_def pollJobStatus_send_def send_def Let_def)

text \<open>
  On the timer, a response acts as \<open>stopPolling\<close> when it carries a terminal snapshot or
  none, and not at all otherwise.
\<close>

lemma recv_timer_stop:
  assumes "terminal_snapshot response \<or> fetch_failed response"
  shows "pollIntervalRef (pollJobStatus_recv c jid response res w) = pollIntervalRef (stopPolling w)
    \<and> intervals (pollJobStatus_recv c jid response res w) = intervals (stopPolling w)
    \<and> timerCount (pollJobStatus_recv c jid response res w) = timerCount w"
proof (cases response)
  case (OkBody j)
  then have "status j = ''COMPLETE'' \<or> status j = ''FAILED''"
    using assms by (simp add: terminal_snapshot_def fetch_failed_def)
  then show ?thesis
    using OkBody
    by (auto simp: pollJobStatus_recv_def getJob_def stopPolling_def clearInterval_def Let_def
        split: option.splits)
qed (simp_all add: pollJobStatus_recv_def getJob_def stopPolling_def clearInterval_def
      split: option.splits)

lemma recv_timer_keep:
  assumes "\<not> (terminal_snapshot response \<or> fetch_failed response)"
  shows "pollIntervalRef (pollJobStatus_recv c jid response res w) = pollIntervalRef w
    \<and> intervals (pollJobStatus_recv c jid response res w) = intervals w
    \<and> timerCount (pollJobStatus_recv c jid response res w) = timerCount w"
proof (cases response)
  case (OkBody j)
  then have "status j \<noteq> ''COMPLETE'' \<and> status j \<noteq> ''FAILED''"
    using assms by (simp add: terminal_snapshot_def)
  then show ?thesis
    using OkBody
    by (auto simp: pollJobStatus_recv_def getJob_def Let_def split: option.splits)
qed (use assms in \<open>simp_all add: fetch_failed_def\<close>)

lemma recv_timerCount [simp]:
  "timerCount (pollJobStatus_recv c jid response res w) = timerCount w"
  using recv_timer_stop [of response c jid res w] recv_timer_keep [of response c jid res w]
  by blast

lemma recv_polling:
  assumes "polling t w"
  shows "if terminal_snapshot response \<or> fetch_failed response
         then stopped t (pollJobStatus_recv c jid response res w)
         else polling t (pollJobStatus_recv c jid response res w)"
proof (cases "terminal_snapshot response \<or> fetch_failed response")
  case True
  then show ?thesis
    using recv_timer_stop [OF True, of c jid res w] stopPolling_polling [OF assms]
    by (simp add: stopped_def)
next
  case False
  then show ?thesis
    using recv_timer_keep [OF False, of c jid res w] assms by (simp add: polling_def)
qed

lemma recv_dead:
  assumes "t \<notin> intervals w"
  shows "t \<notin> intervals (pollJobStatus_recv c jid response res w)"
proof (cases "terminal_snapshot response \<or> fetch_failed response")
  case True
  then show ?thesis
    using recv_timer_stop [OF True, of c jid res w] stopPolling_dead [OF assms] by simp
next
  case False
  then show ?thesis using recv_timer_keep [OF False, of c jid res w] assms by simp
qed

lemma recv_other_timer:
  assumes "t \<in> intervals w" and "pollIntervalRef w \<noteq> Some t"
  shows "t \<in> intervals (pollJobStatus_recv c jid response res w)
    \<and> pollIntervalRef (pollJobStatus_recv c jid response res w) \<noteq> Some t"
proof (cases "terminal_snapshot response \<or> fetch_failed response")
  case True
  then show ?thesis
    using recv_timer_stop [OF True, of c jid res w] stopPolling_other_timer [OF assms] by simp
next
  case False
  then show ?thesis using recv_timer_keep [OF False, of c jid res w] assms by simp
qed

text \<open>Once the timer of a loop is cleared, no event brings it back.\<close>

lemma run_loop_dead:
  "t \<notin> intervals w \<Longrightarrow> t \<le> timerCount w \<Longrightarrow>
     t \<notin> intervals (run_loop t jid es w)"
proof (induction es arbitrary: w)
  case Nil
  then show ?case by simp
next
  case (Cons e es)
  show ?case
  proof (cases e)
    case Fire
    then show ?thesis using Cons by simp
  next
    case (Reply c j response res)
    have "t \<notin> intervals (pollJobStatus_recv c j response res w)"
      using Cons.prems(1) by (rule recv_dead)
    then show ?thesis using Reply Cons.IH Cons.prems(2) by simp
  next
    case Cancel
    have "t \<notin> intervals (stopPolling w)" using Cons.prems(1) by (rule stopPolling_dead)
    then show ?thesis using Cancel Cons.IH Cons.prems(2) by simp
  next
    case (Start j)
    have "t \<notin> intervals (startPolling j w)" "t \<le> timerCount (startPolling j w)"
      using Cons.prems by (simp_all add: startPolling_timer)
    then show ?thesis using Start Cons.IH by simp
  qed
qed

lemma run_loop_polling:
  "polling t w \<Longrightarrow> t \<le> timerCount w \<Longrightarrow> \<not> restarted_while_active es \<Longrightarrow>
     (if list_ex stops es then t \<notin> intervals (run_loop t jid es w)
      else polling t (run_loop t jid es w))"
proof (induction es arbitrary: w)
  case Nil
  then show ?case by simp
next
  case (Cons e es)
  show ?case
  proof (cases e)
    case Fire
    have live: "t \<in> intervals w" using Cons.prems(1) by (simp add: polling_def)
    have "polling t (pollJobStatus_send jid w)" using Cons.prems(1) by (simp add: polling_def)
    moreover have "t \<le> timerCount (pollJobStatus_send jid w)" using Cons.prems(2) by simp
    moreover have "\<not> restarted_while_active es" using Cons.prems(3) Fire by simp
    ultimately show ?thesis using Cons.IH Fire live by simp
  next
    case Cancel
    have "stopped t (stopPolling w)" using Cons.prems(1) by (rule stopPolling_polling)
    then have "t \<notin> intervals (stopPolling w)" by (simp add: stopped_def)
    then have "t \<notin> intervals (run_loop t jid es (stopPolling w))"
      using Cons.prems(2) by (simp add: run_loop_dead)
    then show ?thesis using Cancel by simp
  next
    case (Start j)
    then show ?thesis using Cons.prems(3) by simp
  next
    case (Reply c j response res)
    show ?thesis
    proof (cases "terminal_snapshot response \<or> fetch_failed response")
      case True
      then have "stopped t (pollJobStatus_recv c j response res w)"
        using recv_polling [OF Cons.prems(1), of response c j res] by simp
      then have "t \<notin> intervals (pollJobStatus_recv c j response res w)"
        by (simp add: stopped_def)
      then have "t \<notin> intervals (run_loop t jid es (pollJobStatus_recv c j response res w))"
        using Cons.prems(2) by (simp add: run_loop_dead)
      then show ?thesis using Reply True by simp
    next
      case False
      then have "polling t (pollJobStatus_recv c j response res w)"
        using recv_polling [OF Cons.prems(1), of response c j res] by simp
      moreover have "t \<le> timerCount (pollJobStatus_recv c j response res w)"
        using Cons.prems(2) by simp
      moreover have "\<not> restarted_while_active es" using Cons.prems(3) Reply False by simp
      ultimately show ?thesis using Cons.IH Reply False by simp
    qed
  qed
qed

lemma startPolling_polling: "polling (Suc (timerCount w)) (startPolling jid w)"
  by (simp add: polling_def startPolling_timer)

text \<open>
  Claim C3, as amended. Take the loop the controller started and any sequence of events
  in which the poller is not started again while that loop is active. The loop's timer is
  no longer live at the end exactly when one of the events was a response carrying a
  snapshot with status COMPLETE or FAILED, a status fetch that yielded no snapshot
  (request rejected, response not ok, body null or unreadable), or an explicit stop.
  Nothing else ends the loop.
\<close>

theorem polling_stops_iff:
  "polling t w \<Longrightarrow> t \<le> timerCount w \<Longrightarrow> \<not> restarted_while_active es \<Longrightarrow>
     (t \<notin> intervals (run_loop t jid es w)) = list_ex stops es"
  using run_loop_polling [of t w es jid]
  by (auto simp: polling_def split: if_splits)

lemma startPolling_initial: "startPolling ''j1'' initial_world
  = initial_world\<lparr>requests := [GET_job ''j1''], intervals := {1}, timerCount := 1, pollIntervalRef := Some 1\<rparr>"
  by (simp add: startPolling_def setInterval_def pollJobStatus_send_def send_def initial_world_def)

theorem polling_stops_iff_witness:
  "polling 1 (startPolling ''j1'' initial_world)
   \<and> 1 \<le> timerCount (startPolling ''j1'' initial_world)
   \<and> \<not> restarted_while_active
        [Reply None ''j1'' (OkBody (job_at ''j1'' ''PROCESSING'' ''DETECTING'')) (Rejected []),
         Fire, Reply None ''j1'' (OkBody (job_at ''j1'' ''FAILED'' ''FAILED'')) (Rejected []),
         Start ''j2'']
   \<and> list_ex stops
        [Reply None ''j1'' (OkBody (job_at ''j1'' ''PROCESSING'' ''DETECTING'')) (Rejected []),
         Fire, Reply None ''j1'' (OkBody (job_at ''j1'' ''FAILED'' ''FAILED'')) (Rejected []),
         Start ''j2'']
   \<and> 1 \<notin> intervals (run_loop 1 ''j1''
        [Reply None ''j1'' (OkBody (job_at ''j1'' ''PROCESSING'' ''DETECTING'')) (Rejected []),
         Fire, Reply None ''j1'' (OkBody (job_at ''j1'' ''FAILED'' ''FAILED'')) (Rejected []),
         Start ''j2'']
        (startPolling ''j1'' initial_world))
   \<and> \<not> restarted_while_active
        [Reply None ''j1'' (OkBody (job_at ''j1'' ''PROCESSING'' ''DETECTING'')) (Rejected []),
         Fire]
   \<and> \<not> list_ex stops
        [Reply None ''j1'' (OkBody (job_at ''j1'' ''PROCESSING'' ''DETECTING'')) (Rejected []),
         Fire]
   \<and> 1 \<in> intervals (run_loop 1 ''j1''
        [Reply None ''j1'' (OkBody (job_at ''j1'' ''PROCESSING'' ''DETECTING'')) (Rejected []),
         Fire]
        (startPolling ''j1'' initial_world))"
proof -
  let ?run = "Reply None ''j1'' (OkBody (job_at ''j1'' ''PROCESSING'' ''DETECTING'')) (Rejected [])"
  let ?fail = "Reply None ''j1'' (OkBody (job_at ''j1'' ''FAILED'' ''FAILED'')) (Rejected [])"
  have p: "polling 1 (startPolling ''j1'' initial_world)"
    using startPolling_polling [of initial_world "''j1''"] by (simp add: initial_world_def)
  have b: "1 \<le> timerCount (startPolling ''j1'' initial_world)"
    by (simp add: startPolling_timer)
  have r1: "\<not> restarted_while_active [?run, Fire, ?fail, Start ''j2'']"
    by (simp add: terminal_snapshot_def fetch_failed_def job_at_def)
  have s1: "list_ex stops [?run, Fire, ?fail, Start ''j2'']"
    by (simp add: terminal_snapshot_def fetch_failed_def job_at_def)
  have r2: "\<not> restarted_while_active [?run, Fire]"
    by (simp add: terminal_snapshot_def fetch_failed_def job_at_def)
  have s2: "\<not> list_ex stops [?run, Fire]"
    by (simp add: terminal_snapshot_def fetch_failed_def job_at_def)
  show ?thesis
    using p b r1 s1 r2 s2 polling_stops_iff [OF p b r1, of "''j1''"]
      polling_stops_iff [OF p b r2, of "''j1''"]
    by blast
qed

text \<open>
  Claim C3 as stated fails: a poll whose request is rejected ends the loop, with no
  snapshot fetched and no stop requested.
\<close>

theorem poll_error_stops_counterexample:
  "polling 1 (startPolling ''j1'' initial_world)
   \<and> \<not> terminal_snapshot (Rejected ''Failed to fetch'')
   \<and> 1 \<notin> intervals (run_loop 1 ''j1''
        [Reply None ''j1'' (Rejected ''Failed to fetch'') (Rejected [])]
        (startPolling ''j1'' initial_world))"
  unfolding startPolling_initial
  by (simp add: polling_def terminal_snapshot_def pollJobStatus_recv_def getJob_def
      stopPolling_def clearInterval_def initial_world_def)

section \<open>The response that completes a job\<close>

lemma fetchOutputAsBlob_requests:
  "requests (fetchOutputAsBlob c jid res w) = requests w @ [GET_url (getOutputUrl jid)]"
  by (simp add: fetchOutputAsBlob_def send_def revoke_if_set_def revokeObjectURL_def
      createObjectURL_def Let_def split: http.splits prod.splits option.splits)

lemma fetchOutputAsBlob_view [simp]:
  "status_ui (fetchOutputAsBlob c jid res w) = status_ui w"
  "job (fetchOutputAsBlob c jid res w) = job w"
  by (simp_all add: fetchOutputAsBlob_def send_def revoke_if_set_def revokeObjectURL_def
      createObjectURL_def Let_def split: http.splits prod.splits option.splits)


lemma fetchOutputAsBlob_succeeded:
  "\<not> output_failed res \<Longrightarrow>
   urlCount (fetchOutputAsBlob c jid res w) = Suc (urlCount w)
   \<and> outputBlobUrl (fetchOutputAsBlob c jid res w) = Some (''blob:'' @ show_nat (Suc (urlCount w)))
   \<and> ''blob:'' @ show_nat (Suc (urlCount w)) \<in> objectUrls (fetchOutputAsBlob c jid res w)"
  by (cases res)
    (simp_all add: output_failed_def fetchOutputAsBlob_def send_def revoke_if_set_def
      revokeObjectURL_def createObjectURL_def Let_def split: option.splits)

lemma fetchOutputAsBlob_failed:
  "output_failed res \<Longrightarrow>
   urlCount (fetchOutputAsBlob c jid res w) = urlCount w
   \<and> objectUrls (fetchOutputAsBlob c jid res w) = objectUrls w
   \<and> outputBlobUrl (fetchOutputAsBlob c jid res w) = outputBlobUrl w
   \<and> error (fetchOutputAsBlob c jid res w) \<noteq> None"
  by (cases res) (simp_all add: output_failed_def fetchOutputAsBlob_def send_def Let_def)

lemma stopPolling_other [simp]:
  "requests (stopPolling w) = requests w"
  "urlCount (stopPolling w) = urlCount w"
  "objectUrls (stopPolling w) = objectUrls w"
  "outputBlobUrl (stopPolling w) = outputBlobUrl w"
  "status_ui (stopPolling w) = status_ui w"
  "job (stopPolling w) = job w"
  by (simp_all add: stopPolling_def clearInterval_def split: option.splits)

lemma stopPolling_frame:
  "requests (stopPolling w) = requests w \<and> urlCount (stopPolling w) = urlCount w
   \<and> objectUrls (stopPolling w) = objectUrls w
   \<and> outputBlobUrl (stopPolling w) = outputBlobUrl w"
  by simp

lemma complete_reply_shape:
  assumes "status j = ''COMPLETE''"
  obtains W where
    "pollJobStatus_recv c jid (OkBody j) res w = fetchOutputAsBlob c jid res (stopPolling W)"
    "requests W = requests w"
    "urlCount W = urlCount w" "objectUrls W = objectUrls w"
    "outputBlobUrl W = outputBlobUrl w"
    "status_ui W = complete"
proof -
  let ?w1 = "w\<lparr>job := Some j,
      status_ui := mapBackendToUIStatus (Some (status j)) (stage j)\<rparr>"
  let ?w2 = "case progress j of None \<Rightarrow> ?w1 | Some p \<Rightarrow> ?w1\<lparr>progress_ui := p * 100\<rparr>"
  let ?w3 = "case logs j of None \<Rightarrow> ?w2
             | Some l \<Rightarrow> if length l > 0 then ?w2\<lparr>logs_ui := l\<rparr> else ?w2"
  let ?W = "?w3\<lparr>outputUrl := Some (getOutputUrl jid), progress_ui := 100\<rparr>"
  have e: "pollJobStatus_recv c jid (OkBody j) res w
      = fetchOutputAsBlob c jid res (stopPolling ?W)"
    unfolding pollJobStatus_recv_def getJob_def Let_def
    using assms by simp
  have f: "requests ?W = requests w" "urlCount ?W = urlCount w"
    "objectUrls ?W = objectUrls w" "outputBlobUrl ?W = outputBlobUrl w"
    by (simp_all split: option.splits)
  have g: "status_ui ?W = complete"
    using assms by (simp add: mapBackendToUIStatus_def falsy_str_def split: option.splits)
  from e f g show thesis by (rule that)
qed

text \<open>
  Claim C4, as amended. Let a poll response arrive that carries a snapshot with status
  COMPLETE, while the controller holds the timer of the loop or the loop is already over
  (the poller was not started again over the live loop). Then the loop's timer is not
  live afterwards, the stepper position is 5, and the response sends exactly one request
  for the output. If that request succeeds, its bytes are wrapped in exactly one new
  handle, which becomes the output handle; if it fails, no handle is created, the output
  handle is left as it was and the error field is set. Every such response does this on
  its own.
\<close>

theorem complete_reply:
  assumes "polling t w \<or> t \<notin> intervals w" and "status j = ''COMPLETE''"
  shows "t \<notin> intervals (pollJobStatus_recv captured jid (OkBody j) res w)
    \<and> requests (pollJobStatus_recv captured jid (OkBody j) res w)
        = requests w @ [GET_url (getOutputUrl jid)]
    \<and> activeStep (pollJobStatus_recv captured jid (OkBody j) res w) = 5
    \<and> (\<not> output_failed res \<longrightarrow>
         urlCount (pollJobStatus_recv captured jid (OkBody j) res w) = Suc (urlCount w)
         \<and> outputBlobUrl (pollJobStatus_recv captured jid (OkBody j) res w)
             = Some (''blob:'' @ show_nat (Suc (urlCount w)))
         \<and> ''blob:'' @ show_nat (Suc (urlCount w))
             \<in> objectUrls (pollJobStatus_recv captured jid (OkBody j) res w))
    \<and> (output_failed res \<longrightarrow>
         urlCount (pollJobStatus_recv captured jid (OkBody j) res w) = urlCount w
         \<and> objectUrls (pollJobStatus_recv captured jid (OkBody j) res w) = objectUrls w
         \<and> outputBlobUrl (pollJobStatus_recv captured jid (OkBody j) res w) = outputBlobUrl w
         \<and> error (pollJobStatus_recv captured jid (OkBody j) res w) \<noteq> None)"
proof -
  let ?w' = "pollJobStatus_recv captured jid (OkBody j) res w"
  obtain W where e: "?w' = fetchOutputAsBlob captured jid res (stopPolling W)"
    and f: "requests W = requests w" "urlCount W = urlCount w"
      "objectUrls W = objectUrls w" "outputBlobUrl W = outputBlobUrl w"
    and g: "status_ui W = complete"
    using complete_reply_shape [OF assms(2)] by metis
  have ts: "terminal_snapshot (OkBody j)" using assms(2) by (simp add: terminal_snapshot_def)
  have s: "t \<notin> intervals ?w'"
  proof (cases "polling t w")
    case True
    then have "stopped t ?w'"
      using recv_polling [OF True, of "OkBody j" captured jid res] ts by simp
    then show ?thesis by (simp add: stopped_def)
  next
    case False
    then have "t \<notin> intervals w" using assms(1) by simp
    then show ?thesis by (rule recv_dead)
  qed
  have a: "activeStep ?w' = 5" by (simp add: activeStep_def e g)
  have r: "requests ?w' = requests w @ [GET_url (getOutputUrl jid)]"
    by (simp add: e fetchOutputAsBlob_requests f)
  have ok: "\<not> output_failed res \<longrightarrow>
         urlCount ?w' = Suc (urlCount w)
         \<and> outputBlobUrl ?w' = Some (''blob:'' @ show_nat (Suc (urlCount w)))
         \<and> ''blob:'' @ show_nat (Suc (urlCount w)) \<in> objectUrls ?w'"
    using fetchOutputAsBlob_succeeded [of res captured jid "stopPolling W"]
      stopPolling_frame [of W]
    unfolding e f by metis
  have ko: "output_failed res \<longrightarrow>
         urlCount ?w' = urlCount w \<and> objectUrls ?w' = objectUrls w
         \<and> outputBlobUrl ?w' = outputBlobUrl w \<and> error ?w' \<noteq> None"
    using fetchOutputAsBlob_failed [of res captured jid "stopPolling W"] stopPolling_frame [of W]
    unfolding e f by metis
  show ?thesis using s r a ok ko by blast
qed

theorem complete_reply_witness:
  "polling 1 (startPolling ''j1'' initial_world)
   \<and> status (job_at ''j1'' ''COMPLETE'' ''COMPLETE'') = ''COMPLETE''
   \<and> \<not> output_failed (OkBody ())
   \<and> 1 \<notin> intervals (pollJobStatus_recv None ''j1''
        (OkBody (job_at ''j1'' ''COMPLETE'' ''COMPLETE'')) (OkBody ())
        (startPolling ''j1'' initial_world))
   \<and> activeStep (pollJobStatus_recv None ''j1''
        (OkBody (job_at ''j1'' ''COMPLETE'' ''COMPLETE'')) (OkBody ())
        (startPolling ''j1'' initial_world)) = 5
   \<and> urlCount (pollJobStatus_recv None ''j1''
        (OkBody (job_at ''j1'' ''COMPLETE'' ''COMPLETE'')) (OkBody ())
        (startPolling ''j1'' initial_world)) = 1
   \<and> outputBlobUrl (pollJobStatus_recv None ''j1''
        (OkBody (job_at ''j1'' ''COMPLETE'' ''COMPLETE'')) (OkBody ())
        (startPolling ''j1'' initial_world)) = Some ''blob:1''
   \<and> output_failed (Rejected ''Failed to fetch'')
   \<and> 7 \<notin> intervals initial_world
   \<and> 7 \<notin> intervals (pollJobStatus_recv None ''j1''
        (OkBody (job_at ''j1'' ''COMPLETE'' ''COMPLETE'')) (Rejected ''Failed to fetch'')
        initial_world)
   \<and> urlCount (pollJobStatus_recv None ''j1''
        (OkBody (job_at ''j1'' ''COMPLETE'' ''COMPLETE'')) (Rejected ''Failed to fetch'')
        initial_world) = 0"
proof -
  have p: "polling 1 (startPolling ''j1'' initial_world) \<or> 1 \<notin> intervals (startPolling ''j1'' initial_world)"
    using startPolling_polling [of initial_world "''j1''"] by (simp add: initial_world_def)
  have q: "polling 7 initial_world \<or> 7 \<notin> intervals initial_world"
    by (simp add: initial_world_def)
  have c: "status (job_at ''j1'' ''COMPLETE'' ''COMPLETE'') = ''COMPLETE''"
    by (simp add: job_at_def)
  have u: "urlCount (startPolling ''j1'' initial_world) = 0"
    unfolding startPolling_initial by (simp add: initial_world_def)
  have n: "show_nat (Suc 0) = ''1''" by (simp add: show_nat.simps digit_char_def)
  have l: "polling 1 (startPolling ''j1'' initial_world)"
    using startPolling_polling [of initial_world "''j1''"] by (simp add: initial_world_def)
  have i: "7 \<notin> intervals initial_world" "urlCount initial_world = 0"
    by (simp_all add: initial_world_def)
  show ?thesis
    using l c i(1) complete_reply [OF p c, of None "''j1''" "OkBody ()"]
      complete_reply [OF q c, of None "''j1''" "Rejected ''Failed to fetch''"]
    by (simp add: u n i(2) output_failed_def)
qed

text \<open>
  Claim C4 as stated fails in two ways. When the output request fails, the response with
  COMPLETE creates no handle. And when the timer fires while a poll is still under way,
  both responses carry COMPLETE and each fetches and wraps the output: two requests and
  two handles for one completion.
\<close>

theorem complete_reply_counterexample:
  "polling 1 (startPolling ''j1'' initial_world)
   \<and> status (job_at ''j1'' ''COMPLETE'' ''COMPLETE'') = ''COMPLETE''
   \<and> urlCount (pollJobStatus None ''j1'' (OkBody (job_at ''j1'' ''COMPLETE'' ''COMPLETE''))
        (NotOk 404 ''Not Found'' NotJson) (startPolling ''j1'' initial_world)) = 0
   \<and> objectUrls (pollJobStatus None ''j1'' (OkBody (job_at ''j1'' ''COMPLETE'' ''COMPLETE''))
        (NotOk 404 ''Not Found'' NotJson) (startPolling ''j1'' initial_world)) = {}
   \<and> outputBlobUrl (pollJobStatus None ''j1'' (OkBody (job_at ''j1'' ''COMPLETE'' ''COMPLETE''))
        (NotOk 404 ''Not Found'' NotJson) (startPolling ''j1'' initial_world)) = None
   \<and> error (pollJobStatus None ''j1'' (OkBody (job_at ''j1'' ''COMPLETE'' ''COMPLETE''))
        (NotOk 404 ''Not Found'' NotJson) (startPolling ''j1'' initial_world))
       = Some ''Failed to fetch output video: 404 Not Found''
   \<and> urlCount (run_loop 1 ''j1''
        [Fire,
         Reply None ''j1'' (OkBody (job_at ''j1'' ''COMPLETE'' ''COMPLETE'')) (OkBody ()),
         Reply None ''j1'' (OkBody (job_at ''j1'' ''COMPLETE'' ''COMPLETE'')) (OkBody ())]
        (startPolling ''j1'' initial_world)) = 2
   \<and> requests (run_loop 1 ''j1''
        [Fire,
         Reply None ''j1'' (OkBody (job_at ''j1'' ''COMPLETE'' ''COMPLETE'')) (OkBody ()),
         Reply None ''j1'' (OkBody (job_at ''j1'' ''COMPLETE'' ''COMPLETE'')) (OkBody ())]
        (startPolling ''j1'' initial_world))
       = [GET_job ''j1'', GET_job ''j1'',
          GET_url ''http://localhost:8000/api/pitstop/jobs/j1/output'',
          GET_url ''http://localhost:8000/api/pitstop/jobs/j1/output'']"
  by code_simp

section \<open>Loading a job from the history\<close>




section \<open>Starting the poller twice\<close>

text \<open>
  \<^verbatim>\<open>startPolling\<close> does not call \<^verbatim>\<open>stopPolling\<close>: started twice, it leaves the first
  timer live and overwrites the handle in the ref, so that the first timer can no longer
  be cleared.
\<close>

lemma startPolling_keeps_previous:
  "intervals (startPolling b (startPolling a w))
     = insert (Suc (Suc (timerCount w))) (insert (Suc (timerCount w)) (intervals w))
   \<and> pollIntervalRef (startPolling b (startPolling a w)) = Some (Suc (Suc (timerCount w)))"
  by (simp add: startPolling_def setInterval_def pollJobStatus_send_def send_def Let_def)

text \<open>
  A loop whose timer is live but not in the ref is out of reach: no response, no stop and
  no further start clears its timer. So a loop over which the poller is started again
  never ends.
\<close>

lemma run_loop_orphan:
  "t \<in> intervals w \<Longrightarrow> pollIntervalRef w \<noteq> Some t \<Longrightarrow> t \<le> timerCount w \<Longrightarrow>
     t \<in> intervals (run_loop t jid es w)"
proof (induction es arbitrary: w)
  case Nil
  then show ?case by simp
next
  case (Cons e es)
  show ?case
  proof (cases e)
    case Fire
    then show ?thesis using Cons by simp
  next
    case (Reply c j response res)
    then show ?thesis
      using Cons.IH [of "pollJobStatus_recv c j response res w"]
        recv_other_timer [OF Cons.prems(1) Cons.prems(2), of c j response res] Cons.prems(3)
      by simp
  next
    case Cancel
    then show ?thesis
      using Cons.IH [of "stopPolling w"]
        stopPolling_other_timer [OF Cons.prems(1) Cons.prems(2)] Cons.prems(3)
      by simp
  next
    case (Start j)
    then show ?thesis
      using Cons.IH [of "startPolling j w"] Cons.prems by (simp add: startPolling_timer)
  qed
qed

lemma restarted_loop_goes_on:
  "polling t w \<Longrightarrow> t \<le> timerCount w \<Longrightarrow> restarted_while_active es \<Longrightarrow>
     t \<in> intervals (run_loop t jid es w)"
proof (induction es arbitrary: w)
  case Nil
  then show ?case by simp
next
  case (Cons e es)
  show ?case
  proof (cases e)
    case Fire
    have "polling t (pollJobStatus_send jid w)" using Cons.prems(1) by (simp add: polling_def)
    moreover have "t \<in> intervals w" using Cons.prems(1) by (simp add: polling_def)
    ultimately show ?thesis using Cons.IH Cons.prems(2,3) Fire by simp
  next
    case (Reply c j response res)
    have ns: "\<not> (terminal_snapshot response \<or> fetch_failed response)"
      using Cons.prems(3) Reply by (auto split: if_splits)
    then have "polling t (pollJobStatus_recv c j response res w)"
      using recv_polling [OF Cons.prems(1), of response c j res] by simp
    then show ?thesis using Cons.IH Cons.prems(2,3) Reply ns by simp
  next
    case Cancel
    then show ?thesis using Cons.prems(3) by simp
  next
    case (Start j)
    have "t \<in> intervals (startPolling j w)" "pollIntervalRef (startPolling j w) \<noteq> Some t"
      "t \<le> timerCount (startPolling j w)"
      using Cons.prems(1,2) by (simp_all add: startPolling_timer polling_def)
    then show ?thesis using Start by (simp add: run_loop_orphan)
  qed
qed

text \<open>
  Claim C2 says that starting the poller while a loop is active first stops that loop, so
  that at most one poll interval is ever live. The code does not do so: in the session
  \<open>two_uploads\<close>, every event of which the page permits, two intervals are live at the
  end, the ref holds the second only, and stopping the poller leaves the first one
  running.
\<close>

theorem two_uploads_two_loops:
  "map_option intervals (ui_run 0 two_uploads initial_world) = Some {1, 2}
   \<and> map_option pollIntervalRef (ui_run 0 two_uploads initial_world) = Some (Some 2)
   \<and> map_option (card \<circ> intervals) (ui_run 0 two_uploads initial_world) = Some 2
   \<and> map_option (intervals \<circ> stopPolling) (ui_run 0 two_uploads initial_world) = Some {1}"
  by code_simp

end
